theory Spec2Isabelle
  imports Complex_Main
begin

section \<open>The teleop keyboard node\<close>

text \<open>
  A shallow embedding of \<^verbatim>\<open>teleop_keyboard/teleop_keyboardpy.py\<close>: the class
  \<^verbatim>\<open>TeleopKeyboardNode\<close> and \<^verbatim>\<open>main\<close>.

  Scalars. The velocities are Python floats. The code only stores them, negates them and
  compares them with \<^verbatim>\<open>!=\<close>; the type \<open>pyfloat\<close> below has the finite values, the
  two infinities and NaN, with Python's negation and comparison.

  Effects. \<^verbatim>\<open>self.publisher_.publish(msg)\<close> is the only effect on the transport; the
  field \<open>published\<close> of the state records the messages handed to it, oldest first.
  Logging is not modelled.

  Callbacks. The listener callbacks and the timer callback are modelled as functions
  from state to state; a run of the node is a list of events, each callback run as a
  whole. The listener runs in a thread of its own and the code takes no lock, so the
  timer callback can also run between two statements of \<^verbatim>\<open>update_target_velocities\<close>:
  a later subsection splits that function into its six assignments and lets ticks run
  between them.
\<close>

subsection \<open>Floats\<close>

text \<open>
  A Python float: a finite value, \<^verbatim>\<open>inf\<close>, \<^verbatim>\<open>-inf\<close> or \<^verbatim>\<open>nan\<close>. The two zeros
  \<^verbatim>\<open>0.0\<close> and \<^verbatim>\<open>-0.0\<close> compare equal in Python and are both \<open>Fin 0\<close> here.
  \<^verbatim>\<open>-x\<close> is \<open>float_neg\<close>. \<^verbatim>\<open>x == y\<close> is \<open>float_eq\<close>: NaN equals nothing, itself
  included. \<^verbatim>\<open>x != y\<close> is \<open>float_ne\<close>, its negation.
\<close>

datatype pyfloat = Fin real | PInf | NInf | NaN

fun float_neg :: "pyfloat \<Rightarrow> pyfloat" where
  "float_neg (Fin x) = Fin (- x)"
| "float_neg PInf = NInf"
| "float_neg NInf = PInf"
| "float_neg NaN = NaN"

fun float_eq :: "pyfloat \<Rightarrow> pyfloat \<Rightarrow> bool" where
  "float_eq NaN y = False"
| "float_eq x NaN = False"
| "float_eq x y = (x = y)"

definition float_ne :: "pyfloat \<Rightarrow> pyfloat \<Rightarrow> bool" where
  "float_ne x y = (\<not> float_eq x y)"

subsection \<open>Messages and keys\<close>

text \<open>
  \<^verbatim>\<open>geometry_msgs.msg.Twist\<close>: two vectors of three floats. \<^verbatim>\<open>Twist()\<close> has every
  component 0.0.
\<close>

record twist =
  linear_x :: pyfloat
  linear_y :: pyfloat
  linear_z :: pyfloat
  angular_x :: pyfloat
  angular_y :: pyfloat
  angular_z :: pyfloat

definition Twist :: twist where
  "Twist = \<lparr>linear_x = Fin 0, linear_y = Fin 0, linear_z = Fin 0,
            angular_x = Fin 0, angular_y = Fin 0, angular_z = Fin 0\<rparr>"

text \<open>
  A pynput key is either a \<^verbatim>\<open>KeyCode\<close>, whose attribute \<^verbatim>\<open>char\<close> is a string or
  \<^verbatim>\<open>None\<close>, or a member of the enumeration \<^verbatim>\<open>Key\<close> (shift, ctrl, esc, ...), which
  has no attribute \<^verbatim>\<open>char\<close>: reading it raises \<^verbatim>\<open>AttributeError\<close>.
\<close>

datatype key = KeyCode "string option" | Key string

datatype error = AttributeError

fun char :: "key \<Rightarrow> error + string option" where
  "char (KeyCode c) = Inr c"
| "char (Key name) = Inl AttributeError"

subsection \<open>The node\<close>

record node =
  linear_speed :: pyfloat
  angular_speed :: pyfloat
  target_linear_vel :: pyfloat
  target_angular_vel :: pyfloat
  pressed_keys :: "string option set"
  last_published_twist :: twist
  published :: "twist list"

text \<open>
  \<^verbatim>\<open>__init__\<close>: the two speeds are the parameters \<^verbatim>\<open>linear_speed\<close> and
  \<^verbatim>\<open>angular_speed\<close> (defaults 0.5 and 1.0), read once as doubles and not validated.
\<close>

definition init :: "pyfloat \<Rightarrow> pyfloat \<Rightarrow> node" where
  "init ls as =
     \<lparr>linear_speed = ls, angular_speed = as,
      target_linear_vel = Fin 0, target_angular_vel = Fin 0,
      pressed_keys = {},
      last_published_twist = Twist,
      published = []\<rparr>"

text \<open>\<^verbatim>\<open>update_target_velocities\<close>: two resets, then four independent \<^verbatim>\<open>if\<close>s, in order.\<close>

definition update_target_velocities :: "node \<Rightarrow> node" where
  "update_target_velocities s =
     (let s = s\<lparr>target_linear_vel := Fin 0\<rparr>;
          s = s\<lparr>target_angular_vel := Fin 0\<rparr>;
          s = (if Some ''w'' \<in> pressed_keys s
               then s\<lparr>target_linear_vel := linear_speed s\<rparr> else s);
          s = (if Some ''s'' \<in> pressed_keys s
               then s\<lparr>target_linear_vel := float_neg (linear_speed s)\<rparr> else s);
          s = (if Some ''a'' \<in> pressed_keys s
               then s\<lparr>target_angular_vel := angular_speed s\<rparr> else s);
          s = (if Some ''d'' \<in> pressed_keys s
               then s\<lparr>target_angular_vel := float_neg (angular_speed s)\<rparr> else s)
      in s)"

text \<open>\<^verbatim>\<open>on_press\<close>: the \<^verbatim>\<open>AttributeError\<close> of \<^verbatim>\<open>key.char\<close> is caught and dropped.\<close>

definition on_press :: "key \<Rightarrow> node \<Rightarrow> node" where
  "on_press k s =
     (case char k of
        Inl AttributeError \<Rightarrow> s
      | Inr char_key \<Rightarrow>
          if char_key \<notin> pressed_keys s
          then update_target_velocities (s\<lparr>pressed_keys := insert char_key (pressed_keys s)\<rparr>)
          else s)"

text \<open>
  \<^verbatim>\<open>on_release\<close>: as above; the test for \<^verbatim>\<open>keyboard.Key.esc\<close> that follows the
  \<^verbatim>\<open>try\<close> has an empty body.
\<close>

definition on_release :: "key \<Rightarrow> node \<Rightarrow> node" where
  "on_release k s =
     (let s = (case char k of
                 Inl AttributeError \<Rightarrow> s
               | Inr char_key \<Rightarrow>
                   if char_key \<in> pressed_keys s
                   then update_target_velocities (s\<lparr>pressed_keys := pressed_keys s - {char_key}\<rparr>)
                   else s)
      in if k = Key ''esc'' then s else s)"

text \<open>\<^verbatim>\<open>publish_twist_if_changed\<close>, the timer callback.\<close>

definition publish_twist_if_changed :: "node \<Rightarrow> node" where
  "publish_twist_if_changed s =
     (let twist = Twist;
          twist = twist\<lparr>linear_x := target_linear_vel s\<rparr>;
          twist = twist\<lparr>angular_z := target_angular_vel s\<rparr>
      in if float_ne (linear_x twist) (linear_x (last_published_twist s)) \<or>
            float_ne (angular_z twist) (angular_z (last_published_twist s))
         then s\<lparr>published := published s @ [twist], last_published_twist := twist\<rparr>
         else s)"

text \<open>\<^verbatim>\<open>destroy_node\<close>: publishes \<^verbatim>\<open>Twist()\<close> with no test.\<close>

definition destroy_node :: "node \<Rightarrow> node" where
  "destroy_node s =
     (let stop_twist = Twist
      in s\<lparr>published := published s @ [stop_twist]\<rparr>)"

subsection \<open>Runs\<close>

text \<open>
  What happens while \<^verbatim>\<open>rclpy.spin(node)\<close> runs: the listener thread calls
  \<^verbatim>\<open>on_press\<close> and \<^verbatim>\<open>on_release\<close>, the executor calls the timer callback.
\<close>

datatype event = Press key | Release key | Tick

fun step :: "event \<Rightarrow> node \<Rightarrow> node" where
  "step (Press k) s = on_press k s"
| "step (Release k) s = on_release k s"
| "step Tick s = publish_twist_if_changed s"

fun run :: "event list \<Rightarrow> node \<Rightarrow> node" where
  "run [] s = s"
| "run (e # es) s = run es (step e s)"

text \<open>
  \<^verbatim>\<open>main\<close>: the node is built, spun, and destroyed in the \<^verbatim>\<open>finally\<close> block, which
  runs after a \<^verbatim>\<open>KeyboardInterrupt\<close> and after a normal return of \<^verbatim>\<open>spin\<close> alike.
  The argument \<open>es\<close> is the list of events handled before \<^verbatim>\<open>spin\<close> ended.
\<close>

definition main :: "pyfloat \<Rightarrow> pyfloat \<Rightarrow> event list \<Rightarrow> node" where
  "main ls as es = destroy_node (run es (init ls as))"

text \<open>\<open>n\<close> timer ticks in a row, with no key event between them.\<close>

fun ticks :: "nat \<Rightarrow> node \<Rightarrow> node" where
  "ticks 0 s = s"
| "ticks (Suc n) s = ticks n (publish_twist_if_changed s)"

subsection \<open>The timer callback between the statements of the resolver\<close>

text \<open>
  The six assignments of \<^verbatim>\<open>update_target_velocities\<close>, one function each, in source
  order: the two resets, then the tests for \<^verbatim>\<open>'w'\<close>, \<^verbatim>\<open>'s'\<close>, \<^verbatim>\<open>'a'\<close> and \<^verbatim>\<open>'d'\<close>.
\<close>

definition utv_stmt1 :: "node \<Rightarrow> node" where
  "utv_stmt1 s = s\<lparr>target_linear_vel := Fin 0\<rparr>"

definition utv_stmt2 :: "node \<Rightarrow> node" where
  "utv_stmt2 s = s\<lparr>target_angular_vel := Fin 0\<rparr>"

definition utv_stmt3 :: "node \<Rightarrow> node" where
  "utv_stmt3 s =
     (if Some ''w'' \<in> pressed_keys s then s\<lparr>target_linear_vel := linear_speed s\<rparr> else s)"

definition utv_stmt4 :: "node \<Rightarrow> node" where
  "utv_stmt4 s =
     (if Some ''s'' \<in> pressed_keys s
      then s\<lparr>target_linear_vel := float_neg (linear_speed s)\<rparr> else s)"

definition utv_stmt5 :: "node \<Rightarrow> node" where
  "utv_stmt5 s =
     (if Some ''a'' \<in> pressed_keys s then s\<lparr>target_angular_vel := angular_speed s\<rparr> else s)"

definition utv_stmt6 :: "node \<Rightarrow> node" where
  "utv_stmt6 s =
     (if Some ''d'' \<in> pressed_keys s
      then s\<lparr>target_angular_vel := float_neg (angular_speed s)\<rparr> else s)"



subsection \<open>Notions used by the properties\<close>

text \<open>
  The target velocity is in step with the key set when recomputing it would change neither
  component.
\<close>

definition in_sync :: "node \<Rightarrow> bool" where
  "in_sync s =
     (target_linear_vel s = target_linear_vel (update_target_velocities s) \<and>
      target_angular_vel s = target_angular_vel (update_target_velocities s))"

text \<open>
  A key is held when its \<^verbatim>\<open>char\<close> is a member of \<^verbatim>\<open>pressed_keys\<close>; a key without
  \<^verbatim>\<open>char\<close> is never held.
\<close>

definition held :: "key \<Rightarrow> node \<Rightarrow> bool" where
  "held k s = (case char k of Inl e \<Rightarrow> False | Inr c \<Rightarrow> c \<in> pressed_keys s)"

text \<open>
  The specification's reading of a sequence of key events: each press is a set insert and
  each release a set remove of the key's identifier; a key that carries no identifier
  contributes nothing, and neither does a timer tick.
\<close>

fun net_effect :: "event list \<Rightarrow> string option set \<Rightarrow> string option set" where
  "net_effect [] K = K"
| "net_effect (Press k # es) K =
     net_effect es (case char k of Inl e \<Rightarrow> K | Inr c \<Rightarrow> insert c K)"
| "net_effect (Release k # es) K =
     net_effect es (case char k of Inl e \<Rightarrow> K | Inr c \<Rightarrow> K - {c})"
| "net_effect (Tick # es) K = net_effect es K"

section \<open>Basic facts\<close>

lemma run_append: "run (es @ es') s = run es' (run es s)"
  by (induction es arbitrary: s) simp_all

subsection \<open>Float comparison\<close>

lemma float_ne_iff: "float_ne x y = (x = NaN \<or> y = NaN \<or> x \<noteq> y)"
  by (cases x; cases y) (simp_all add: float_ne_def)

lemma float_ne_Fin: "float_ne (Fin a) (Fin b) = (a \<noteq> b)"
  by (simp add: float_ne_def)

lemma float_ne_zero: "float_ne x (Fin 0) = (x \<noteq> Fin 0)"
  by (cases x) (simp_all add: float_ne_def)

lemma float_ne_same: "float_ne x x = (x = NaN)"
  by (cases x) (simp_all add: float_ne_def)

text \<open>The net result of \<^verbatim>\<open>update_target_velocities\<close>: a later \<^verbatim>\<open>if\<close> overwrites an earlier one.\<close>

lemma utv_eq:
  "update_target_velocities s =
     s\<lparr>target_linear_vel :=
          (if Some ''s'' \<in> pressed_keys s then float_neg (linear_speed s)
           else if Some ''w'' \<in> pressed_keys s then linear_speed s else Fin 0),
       target_angular_vel :=
          (if Some ''d'' \<in> pressed_keys s then float_neg (angular_speed s)
           else if Some ''a'' \<in> pressed_keys s then angular_speed s else Fin 0)\<rparr>"
  by (simp add: update_target_velocities_def Let_def)

subsection \<open>The target velocity stays in step with the key set\<close>

lemma in_sync_utv: "in_sync (update_target_velocities s)"
  by (simp add: in_sync_def utv_eq)

lemma in_sync_init: "in_sync (init ls as)"
  by (simp add: in_sync_def utv_eq init_def)

lemma in_sync_on_press: "in_sync s \<Longrightarrow> in_sync (on_press k s)"
  by (cases k) (simp_all add: on_press_def in_sync_utv)

lemma in_sync_on_release: "in_sync s \<Longrightarrow> in_sync (on_release k s)"
  by (cases k) (simp_all add: on_release_def in_sync_utv)

lemma in_sync_tick: "in_sync s \<Longrightarrow> in_sync (publish_twist_if_changed s)"
  by (simp add: in_sync_def utv_eq publish_twist_if_changed_def Let_def)

lemma in_sync_step: "in_sync s \<Longrightarrow> in_sync (step e s)"
  by (cases e) (simp_all add: in_sync_on_press in_sync_on_release in_sync_tick)

lemma in_sync_run: "in_sync s \<Longrightarrow> in_sync (run es s)"
  by (induction es arbitrary: s) (simp_all add: in_sync_step)

lemma in_sync_reachable: "in_sync (run es (init ls as))"
  by (simp add: in_sync_run in_sync_init)

subsection \<open>The configuration is read-only\<close>

lemma speeds_step:
  "linear_speed (step e s) = linear_speed s \<and> angular_speed (step e s) = angular_speed s"
proof (cases e)
  case (Press k)
  then show ?thesis
    by (cases k) (simp_all add: on_press_def utv_eq)
next
  case (Release k)
  then show ?thesis
    by (cases k) (simp_all add: on_release_def utv_eq)
next
  case Tick
  then show ?thesis
    by (simp add: publish_twist_if_changed_def Let_def)
qed

lemma speeds_run:
  "linear_speed (run es s) = linear_speed s \<and> angular_speed (run es s) = angular_speed s"
  by (induction es arbitrary: s) (simp_all add: speeds_step)

subsection \<open>The timer callback\<close>

text \<open>The timer callback writes the transport and the last published message only.\<close>

lemma tick_frame:
  "pressed_keys (publish_twist_if_changed s) = pressed_keys s \<and>
   target_linear_vel (publish_twist_if_changed s) = target_linear_vel s \<and>
   target_angular_vel (publish_twist_if_changed s) = target_angular_vel s \<and>
   linear_speed (publish_twist_if_changed s) = linear_speed s \<and>
   angular_speed (publish_twist_if_changed s) = angular_speed s"
  by (simp add: publish_twist_if_changed_def Let_def)


text \<open>With a target that is not NaN, a tick directly after a tick does nothing.\<close>

lemma tick_tick:
  "target_linear_vel s \<noteq> NaN \<Longrightarrow> target_angular_vel s \<noteq> NaN \<Longrightarrow>
     publish_twist_if_changed (publish_twist_if_changed s) = publish_twist_if_changed s"
  by (simp add: publish_twist_if_changed_def Let_def float_ne_same)

lemma ticks_Suc:
  "target_linear_vel s \<noteq> NaN \<Longrightarrow> target_angular_vel s \<noteq> NaN \<Longrightarrow>
     ticks (Suc n) s = publish_twist_if_changed s"
proof (induction n arbitrary: s)
  case 0
  show ?case
    by simp
next
  case (Suc n)
  have "ticks (Suc (Suc n)) s = ticks (Suc n) (publish_twist_if_changed s)"
    by simp
  also have "\<dots> = publish_twist_if_changed (publish_twist_if_changed s)"
    using Suc.prems by (intro Suc.IH) (simp_all add: tick_frame)
  also have "\<dots> = publish_twist_if_changed s"
    using Suc.prems by (rule tick_tick)
  finally show ?case .
qed

lemma tick_length:
  "length (published (publish_twist_if_changed s)) \<le> length (published s) + 1"
  by (simp add: publish_twist_if_changed_def Let_def)

subsection \<open>Only the timer callback touches the transport while the node spins\<close>

lemma key_event_frame:
  "published (on_press k s) = published s \<and>
   last_published_twist (on_press k s) = last_published_twist s \<and>
   published (on_release k s) = published s \<and>
   last_published_twist (on_release k s) = last_published_twist s"
  by (cases k) (simp_all add: on_press_def on_release_def utv_eq)

lemma no_tick_frame:
  "Tick \<notin> set es \<Longrightarrow>
     published (run es s) = published s \<and>
     last_published_twist (run es s) = last_published_twist s"
proof (induction es arbitrary: s)
  case Nil
  show ?case
    by simp
next
  case (Cons e es)
  from Cons.prems have rest: "Tick \<notin> set es" and e: "e \<noteq> Tick"
    by auto
  from e have "published (step e s) = published s \<and>
      last_published_twist (step e s) = last_published_twist s"
    by (cases e) (simp_all add: key_event_frame)
  with Cons.IH [OF rest, of "step e s"] show ?case
    by simp
qed

subsection \<open>The key set\<close>

lemma pressed_keys_run: "pressed_keys (run es s) = net_effect es (pressed_keys s)"
proof (induction es arbitrary: s)
  case Nil
  show ?case
    by simp
next
  case (Cons e es)
  show ?case
  proof (cases e)
    case (Press k)
    then show ?thesis
      using Cons by (cases k) (auto simp add: on_press_def utv_eq insert_absorb)
  next
    case (Release k)
    then show ?thesis
      using Cons by (cases k) (auto simp add: on_release_def utv_eq)
  next
    case Tick
    then show ?thesis
      using Cons by (simp add: publish_twist_if_changed_def Let_def)
  qed
qed

subsection \<open>The resolver, statement by statement\<close>


lemma utv_stmt_keys:
  "pressed_keys (utv_stmt1 s) = pressed_keys s \<and> pressed_keys (utv_stmt2 s) = pressed_keys s \<and>
   pressed_keys (utv_stmt3 s) = pressed_keys s \<and> pressed_keys (utv_stmt4 s) = pressed_keys s \<and>
   pressed_keys (utv_stmt5 s) = pressed_keys s \<and> pressed_keys (utv_stmt6 s) = pressed_keys s"
  by (simp add: utv_stmt1_def utv_stmt2_def utv_stmt3_def utv_stmt4_def utv_stmt5_def
        utv_stmt6_def)




section \<open>The velocity resolver\<close>

text \<open>
  C3. \<^verbatim>\<open>update_target_velocities\<close> is a function of the key set and the two configured
  speeds alone: it writes the two target fields and nothing else, and the values it writes
  are the same from any state \<open>t\<close> that has the same key set and speed, whatever the other
  fields of \<open>t\<close> hold. With no key held it yields \<open>(0, 0)\<close>; with only \<^verbatim>\<open>'w'\<close> held,
  \<open>(linear_speed, 0)\<close>; with \<^verbatim>\<open>'w'\<close> and \<^verbatim>\<open>'d'\<close> held, \<open>(linear_speed, float_neg angular_speed)\<close>.
\<close>

theorem resolver_pure_values:
  "update_target_velocities s =
     s\<lparr>target_linear_vel := target_linear_vel (update_target_velocities s),
       target_angular_vel := target_angular_vel (update_target_velocities s)\<rparr>
   \<and> target_linear_vel (update_target_velocities s) =
       target_linear_vel (update_target_velocities
         (t\<lparr>pressed_keys := pressed_keys s, linear_speed := linear_speed s\<rparr>))
   \<and> target_angular_vel (update_target_velocities s) =
       target_angular_vel (update_target_velocities
         (t\<lparr>pressed_keys := pressed_keys s, angular_speed := angular_speed s\<rparr>))
   \<and> target_linear_vel (update_target_velocities (s\<lparr>pressed_keys := {}\<rparr>)) = Fin 0
   \<and> target_angular_vel (update_target_velocities (s\<lparr>pressed_keys := {}\<rparr>)) = Fin 0
   \<and> target_linear_vel (update_target_velocities (s\<lparr>pressed_keys := {Some ''w''}\<rparr>))
       = linear_speed s
   \<and> target_angular_vel (update_target_velocities (s\<lparr>pressed_keys := {Some ''w''}\<rparr>)) = Fin 0
   \<and> target_linear_vel
         (update_target_velocities (s\<lparr>pressed_keys := {Some ''w'', Some ''d''}\<rparr>))
       = linear_speed s
   \<and> target_angular_vel
         (update_target_velocities (s\<lparr>pressed_keys := {Some ''w'', Some ''d''}\<rparr>))
       = float_neg (angular_speed s)"
  by (simp add: utv_eq)

text \<open>The same three values, reached from the start by key events.\<close>

lemma resolver_values_from_events:
  "target_linear_vel (run [] (init ls as)) = Fin 0
   \<and> target_angular_vel (run [] (init ls as)) = Fin 0
   \<and> pressed_keys (run [Press (KeyCode (Some ''w''))] (init ls as)) = {Some ''w''}
   \<and> target_linear_vel (run [Press (KeyCode (Some ''w''))] (init ls as)) = ls
   \<and> target_angular_vel (run [Press (KeyCode (Some ''w''))] (init ls as)) = Fin 0
   \<and> pressed_keys (run [Press (KeyCode (Some ''w'')), Press (KeyCode (Some ''d''))] (init ls as))
       = {Some ''w'', Some ''d''}
   \<and> target_linear_vel
         (run [Press (KeyCode (Some ''w'')), Press (KeyCode (Some ''d''))] (init ls as)) = ls
   \<and> target_angular_vel
         (run [Press (KeyCode (Some ''w'')), Press (KeyCode (Some ''d''))] (init ls as))
       = float_neg as"
  by (simp add: init_def on_press_def utv_eq insert_commute)

text \<open>
  C2, as stated, fails. With speeds 0.5 and 1.0, pressing \<^verbatim>\<open>'w'\<close> and then \<^verbatim>\<open>'s'\<close> leaves
  both in the key set and a linear target of -0.5, not +0.5; pressing \<^verbatim>\<open>'a'\<close> and then
  \<^verbatim>\<open>'d'\<close> leaves an angular target of -1.0, not +1.0.
\<close>

theorem first_checked_wins_counterexample:
  "pressed_keys (run [Press (KeyCode (Some ''w'')), Press (KeyCode (Some ''s''))] (init (Fin (1/2)) (Fin 1)))
     = {Some ''w'', Some ''s''}
   \<and> target_linear_vel
        (run [Press (KeyCode (Some ''w'')), Press (KeyCode (Some ''s''))] (init (Fin (1/2)) (Fin 1)))
       = Fin (- (1/2))
   \<and> target_linear_vel
        (run [Press (KeyCode (Some ''w'')), Press (KeyCode (Some ''s''))] (init (Fin (1/2)) (Fin 1)))
       \<noteq> Fin (1/2)
   \<and> pressed_keys (run [Press (KeyCode (Some ''a'')), Press (KeyCode (Some ''d''))] (init (Fin (1/2)) (Fin 1)))
     = {Some ''a'', Some ''d''}
   \<and> target_angular_vel
        (run [Press (KeyCode (Some ''a'')), Press (KeyCode (Some ''d''))] (init (Fin (1/2)) (Fin 1)))
       = Fin (- 1)
   \<and> target_angular_vel
        (run [Press (KeyCode (Some ''a'')), Press (KeyCode (Some ''d''))] (init (Fin (1/2)) (Fin 1)))
       \<noteq> Fin 1"
  by (simp add: init_def on_press_def utv_eq insert_commute)

text \<open>
  C2, amended. For every key set containing both keys of one axis, the key checked last
  wins: with \<^verbatim>\<open>'w'\<close> and \<^verbatim>\<open>'s'\<close> both held the resolved linear velocity is
  \<open>float_neg linear_speed\<close> (backward), and with \<^verbatim>\<open>'a'\<close> and \<^verbatim>\<open>'d'\<close> both held the resolved
  angular velocity is \<open>float_neg angular_speed\<close> (turn right).
\<close>

theorem last_checked_wins:
  "(Some ''w'' \<in> pressed_keys s \<and> Some ''s'' \<in> pressed_keys s \<longrightarrow>
      target_linear_vel (update_target_velocities s) = float_neg (linear_speed s))
   \<and> (Some ''a'' \<in> pressed_keys s \<and> Some ''d'' \<in> pressed_keys s \<longrightarrow>
      target_angular_vel (update_target_velocities s) = float_neg (angular_speed s))"
  by (simp add: utv_eq)

theorem last_checked_wins_witness:
  "Some ''w'' \<in> pressed_keys
      ((init (Fin (1/2)) (Fin 1))\<lparr>pressed_keys := {Some ''w'', Some ''s'', Some ''a'', Some ''d''}\<rparr>)
   \<and> Some ''s'' \<in> pressed_keys
      ((init (Fin (1/2)) (Fin 1))\<lparr>pressed_keys := {Some ''w'', Some ''s'', Some ''a'', Some ''d''}\<rparr>)
   \<and> Some ''a'' \<in> pressed_keys
      ((init (Fin (1/2)) (Fin 1))\<lparr>pressed_keys := {Some ''w'', Some ''s'', Some ''a'', Some ''d''}\<rparr>)
   \<and> Some ''d'' \<in> pressed_keys
      ((init (Fin (1/2)) (Fin 1))\<lparr>pressed_keys := {Some ''w'', Some ''s'', Some ''a'', Some ''d''}\<rparr>)
   \<and> target_linear_vel (update_target_velocities
        ((init (Fin (1/2)) (Fin 1))\<lparr>pressed_keys := {Some ''w'', Some ''s'', Some ''a'', Some ''d''}\<rparr>))
      = Fin (- (1/2))
   \<and> target_angular_vel (update_target_velocities
        ((init (Fin (1/2)) (Fin 1))\<lparr>pressed_keys := {Some ''w'', Some ''s'', Some ''a'', Some ''d''}\<rparr>))
      = Fin (- 1)"
  using last_checked_wins
    [of "(init (Fin (1/2)) (Fin 1))\<lparr>pressed_keys := {Some ''w'', Some ''s'', Some ''a'', Some ''d''}\<rparr>"]
  by (simp add: init_def)

text \<open>
  C8. The target velocity produced by any resolution has its linear component in
  \<open>{Fin 0, linear_speed, float_neg linear_speed}\<close> and its angular component in
  \<open>{Fin 0, angular_speed, float_neg angular_speed}\<close>, and so has the target velocity of the node after
  any sequence of press, release and tick events from construction.
\<close>

theorem target_velocity_range:
  "target_linear_vel (update_target_velocities s) \<in> {Fin 0, linear_speed s, float_neg (linear_speed s)}
   \<and> target_angular_vel (update_target_velocities s) \<in> {Fin 0, angular_speed s, float_neg (angular_speed s)}
   \<and> target_linear_vel (run es (init ls as)) \<in> {Fin 0, ls, float_neg ls}
   \<and> target_angular_vel (run es (init ls as)) \<in> {Fin 0, as, float_neg as}"
proof -
  have sync: "in_sync (run es (init ls as))"
    by (rule in_sync_reachable)
  have sp: "linear_speed (run es (init ls as)) = ls \<and> angular_speed (run es (init ls as)) = as"
    by (simp add: speeds_run init_def)
  have a: "target_linear_vel (update_target_velocities s) \<in> {Fin 0, linear_speed s, float_neg (linear_speed s)}"
    by (simp add: utv_eq)
  have b: "target_angular_vel (update_target_velocities s)
      \<in> {Fin 0, angular_speed s, float_neg (angular_speed s)}"
    by (simp add: utv_eq)
  have c: "target_linear_vel (run es (init ls as)) \<in> {Fin 0, ls, float_neg ls}"
    using sync sp by (simp add: in_sync_def utv_eq)
  have d: "target_angular_vel (run es (init ls as)) \<in> {Fin 0, as, float_neg as}"
    using sync sp by (simp add: in_sync_def utv_eq)
  from a b c d show ?thesis
    by blast
qed

section \<open>The key-state set\<close>




text \<open>
  C6. A release of a key that is not held returns the state it was given, and so does a
  press of a key that is held: the key set, the target velocity and everything else are as
  before. The state is arbitrary, so this covers states whose target velocity a
  recomputation would change: none takes place.
\<close>

theorem release_not_held_press_held_noop:
  "(\<not> held k s \<longrightarrow> on_release k s = s) \<and> (held k' s' \<longrightarrow> on_press k' s' = s')"
  by (cases k; cases k') (simp_all add: held_def on_release_def on_press_def)

theorem release_not_held_press_held_noop_witness:
  "\<not> held (KeyCode (Some ''s''))
        ((init (Fin (1/2)) (Fin 1))\<lparr>pressed_keys := {Some ''w''}, target_linear_vel := Fin 7\<rparr>)
   \<and> held (KeyCode (Some ''w''))
        ((init (Fin (1/2)) (Fin 1))\<lparr>pressed_keys := {Some ''w''}, target_linear_vel := Fin 7\<rparr>)
   \<and> target_linear_vel (on_release (KeyCode (Some ''s''))
        ((init (Fin (1/2)) (Fin 1))\<lparr>pressed_keys := {Some ''w''}, target_linear_vel := Fin 7\<rparr>)) = Fin 7
   \<and> target_linear_vel (on_press (KeyCode (Some ''w''))
        ((init (Fin (1/2)) (Fin 1))\<lparr>pressed_keys := {Some ''w''}, target_linear_vel := Fin 7\<rparr>)) = Fin 7
   \<and> target_linear_vel (update_target_velocities
        ((init (Fin (1/2)) (Fin 1))\<lparr>pressed_keys := {Some ''w''}, target_linear_vel := Fin 7\<rparr>)) = Fin (1/2)"
  using release_not_held_press_held_noop
    [of "KeyCode (Some ''s'')"
        "(init (Fin (1/2)) (Fin 1))\<lparr>pressed_keys := {Some ''w''}, target_linear_vel := Fin 7\<rparr>"
        "KeyCode (Some ''w'')"
        "(init (Fin (1/2)) (Fin 1))\<lparr>pressed_keys := {Some ''w''}, target_linear_vel := Fin 7\<rparr>"]
  by (simp add: held_def init_def utv_eq)

text \<open>
  C7. After any finite sequence of events applied to the fresh node, the key set is the net
  effect of the sequence read as set inserts and set removes, starting from the empty set.
\<close>

theorem key_state_is_net_effect:
  "pressed_keys (run es (init ls as)) = net_effect es {}"
  by (simp add: pressed_keys_run init_def)

section \<open>The change gate\<close>

text \<open>
  The change gate away from NaN. When neither component of the target velocity is NaN, a
  second timer tick directly after a first changes nothing, so any number of consecutive
  ticks does what one tick does and hands at most one message to the transport.
\<close>

lemma change_gate_idempotent_unless_nan:
  assumes "target_linear_vel s \<noteq> NaN" and "target_angular_vel s \<noteq> NaN"
  shows "publish_twist_if_changed (publish_twist_if_changed s) = publish_twist_if_changed s
    \<and> ticks (Suc n) s = publish_twist_if_changed s
    \<and> length (published (ticks (Suc n) s)) \<le> length (published s) + 1"
proof -
  have one: "publish_twist_if_changed (publish_twist_if_changed s) = publish_twist_if_changed s"
    using assms by (rule tick_tick)
  have two: "ticks (Suc n) s = publish_twist_if_changed s"
    using assms by (rule ticks_Suc)
  have three: "length (published (ticks (Suc n) s)) \<le> length (published s) + 1"
    by (simp only: two tick_length)
  from one two three show ?thesis
    by blast
qed

text \<open>
  The stop after the keys are released. In a state reached from construction in which none
  of \<^verbatim>\<open>'w'\<close>, \<^verbatim>\<open>'s'\<close>, \<^verbatim>\<open>'a'\<close>, \<^verbatim>\<open>'d'\<close> is held, the target is \<open>(0, 0)\<close> whatever
  the speeds are, and the ticks that follow publish the zero command once if the last
  published command differs from it, and nothing otherwise.
\<close>

lemma stop_sent_once_after_release:
  assumes "pressed_keys (run es (init ls as))
      \<inter> {Some ''w'', Some ''s'', Some ''a'', Some ''d''} = {}"
  shows "target_linear_vel (run es (init ls as)) = Fin 0
    \<and> target_angular_vel (run es (init ls as)) = Fin 0
    \<and> published (ticks (Suc n) (run es (init ls as)))
        = (if linear_x (last_published_twist (run es (init ls as))) \<noteq> Fin 0 \<or>
              angular_z (last_published_twist (run es (init ls as))) \<noteq> Fin 0
           then published (run es (init ls as)) @ [Twist]
           else published (run es (init ls as)))"
proof -
  have sync: "in_sync (run es (init ls as))"
    by (rule in_sync_reachable)
  from assms have none: "Some ''w'' \<notin> pressed_keys (run es (init ls as))"
      "Some ''s'' \<notin> pressed_keys (run es (init ls as))"
      "Some ''a'' \<notin> pressed_keys (run es (init ls as))"
      "Some ''d'' \<notin> pressed_keys (run es (init ls as))"
    by auto
  from sync none have zero: "target_linear_vel (run es (init ls as)) = Fin 0"
      "target_angular_vel (run es (init ls as)) = Fin 0"
    by (simp_all add: in_sync_def utv_eq)
  then have "ticks (Suc n) (run es (init ls as)) = publish_twist_if_changed (run es (init ls as))"
    by (intro ticks_Suc) simp_all
  then have "published (ticks (Suc n) (run es (init ls as)))
        = (if linear_x (last_published_twist (run es (init ls as))) \<noteq> Fin 0 \<or>
              angular_z (last_published_twist (run es (init ls as))) \<noteq> Fin 0
           then published (run es (init ls as)) @ [Twist]
           else published (run es (init ls as)))"
    using zero by (auto simp add: publish_twist_if_changed_def Let_def Twist_def float_ne_iff)
  with zero show ?thesis
    by blast
qed

text \<open>
  C4 at a NaN speed. The parameter \<^verbatim>\<open>linear_speed\<close> is a double that the constructor
  does not validate. With \<^verbatim>\<open>linear_speed\<close> NaN and \<^verbatim>\<open>'w'\<close> held the target velocity is
  \<open>(NaN, 0)\<close>; the ticks that follow leave it unchanged, and every one of them publishes
  it again, since \<^verbatim>\<open>!=\<close> holds of NaN against the NaN published last: two consecutive
  ticks make two emissions, three make three.
\<close>

theorem change_gate_nan_republishes:
  "target_linear_vel (run [Press (KeyCode (Some ''w''))] (init NaN (Fin 1))) = NaN
   \<and> target_linear_vel
        (publish_twist_if_changed (run [Press (KeyCode (Some ''w''))] (init NaN (Fin 1)))) = NaN
   \<and> published (publish_twist_if_changed (publish_twist_if_changed
        (run [Press (KeyCode (Some ''w''))] (init NaN (Fin 1)))))
       = [Twist\<lparr>linear_x := NaN\<rparr>, Twist\<lparr>linear_x := NaN\<rparr>]
   \<and> published (ticks (Suc (Suc (Suc 0)))
        (run [Press (KeyCode (Some ''w''))] (init NaN (Fin 1))))
       = [Twist\<lparr>linear_x := NaN\<rparr>, Twist\<lparr>linear_x := NaN\<rparr>, Twist\<lparr>linear_x := NaN\<rparr>]"
  by (simp add: init_def on_press_def utv_eq publish_twist_if_changed_def Twist_def Let_def
        float_ne_def)

text \<open>
  C9, as stated, fails. The constructor sets \<^verbatim>\<open>last_published_twist\<close> to \<^verbatim>\<open>Twist()\<close>, the
  zero command, not to an absent value: on the fresh node the target \<open>(0, 0)\<close> equals it in
  both compared components, and the first tick publishes nothing.
\<close>

theorem last_emitted_starts_none_counterexample:
  "last_published_twist (init (Fin (1/2)) (Fin 1)) = Twist
   \<and> target_linear_vel (init (Fin (1/2)) (Fin 1)) = linear_x (last_published_twist (init (Fin (1/2)) (Fin 1)))
   \<and> target_angular_vel (init (Fin (1/2)) (Fin 1)) = angular_z (last_published_twist (init (Fin (1/2)) (Fin 1)))
   \<and> published (publish_twist_if_changed (init (Fin (1/2)) (Fin 1))) = []"
  by (simp add: init_def publish_twist_if_changed_def float_ne_iff Let_def Twist_def)

text \<open>
  C9, amended. The last published message is the zero command at construction. No key
  event and no shutdown changes it; a tick that does not publish leaves it as it is, and a
  tick that publishes sets it to the message just published. Consequently, on the first
  tick a target of \<open>(0, 0)\<close> does not differ from it and is not published, and any other
  target is.
\<close>

theorem last_emitted_lifecycle:
  "last_published_twist (init ls as) = Twist
   \<and> last_published_twist (on_press k s) = last_published_twist s
   \<and> last_published_twist (on_release k s) = last_published_twist s
   \<and> last_published_twist (destroy_node s) = last_published_twist s
   \<and> (if published (publish_twist_if_changed s) = published s
       then last_published_twist (publish_twist_if_changed s) = last_published_twist s
       else published (publish_twist_if_changed s)
              = published s @ [last_published_twist (publish_twist_if_changed s)])
   \<and> (Tick \<notin> set es \<longrightarrow>
        published (publish_twist_if_changed (run es (init ls as)))
          = (if target_linear_vel (run es (init ls as)) = Fin 0 \<and>
                target_angular_vel (run es (init ls as)) = Fin 0
             then []
             else [Twist\<lparr>linear_x := target_linear_vel (run es (init ls as)),
                         angular_z := target_angular_vel (run es (init ls as))\<rparr>]))"
proof -
  have a: "last_published_twist (init ls as) = Twist"
    by (simp add: init_def)
  have b: "last_published_twist (on_press k s) = last_published_twist s"
    by (simp add: key_event_frame)
  have c: "last_published_twist (on_release k s) = last_published_twist s"
    by (simp add: key_event_frame)
  have d: "last_published_twist (destroy_node s) = last_published_twist s"
    by (simp add: destroy_node_def)
  have e: "if published (publish_twist_if_changed s) = published s
       then last_published_twist (publish_twist_if_changed s) = last_published_twist s
       else published (publish_twist_if_changed s)
              = published s @ [last_published_twist (publish_twist_if_changed s)]"
    by (simp add: publish_twist_if_changed_def float_ne_iff Let_def)
  have f: "Tick \<notin> set es \<longrightarrow>
        published (publish_twist_if_changed (run es (init ls as)))
          = (if target_linear_vel (run es (init ls as)) = Fin 0 \<and>
                target_angular_vel (run es (init ls as)) = Fin 0
             then []
             else [Twist\<lparr>linear_x := target_linear_vel (run es (init ls as)),
                         angular_z := target_angular_vel (run es (init ls as))\<rparr>])"
  proof
    assume "Tick \<notin> set es"
    from no_tick_frame [OF this, of "init ls as"]
    have "published (run es (init ls as)) = [] \<and>
        last_published_twist (run es (init ls as)) = Twist"
      by (simp add: init_def)
    then show "published (publish_twist_if_changed (run es (init ls as)))
          = (if target_linear_vel (run es (init ls as)) = Fin 0 \<and>
                target_angular_vel (run es (init ls as)) = Fin 0
             then []
             else [Twist\<lparr>linear_x := target_linear_vel (run es (init ls as)),
                         angular_z := target_angular_vel (run es (init ls as))\<rparr>])"
      by (auto simp add: publish_twist_if_changed_def float_ne_iff Let_def Twist_def)
  qed
  from a b c d e f show ?thesis
    by blast
qed

theorem last_emitted_lifecycle_witness:
  "Tick \<notin> set [Press (KeyCode (Some ''w''))]
   \<and> published (publish_twist_if_changed (run [Press (KeyCode (Some ''w''))] (init (Fin (1/2)) (Fin 1))))
       = [Twist\<lparr>linear_x := Fin (1/2)\<rparr>]
   \<and> last_published_twist
        (publish_twist_if_changed (run [Press (KeyCode (Some ''w''))] (init (Fin (1/2)) (Fin 1))))
       = Twist\<lparr>linear_x := Fin (1/2)\<rparr>
   \<and> last_published_twist (publish_twist_if_changed (init (Fin (1/2)) (Fin 1))) = Twist"
  using last_emitted_lifecycle
    [of "Fin (1/2)" "Fin 1" "KeyCode (Some ''w'')" "init (Fin (1/2)) (Fin 1)"
        "[Press (KeyCode (Some ''w''))]"]
  by (simp add: init_def on_press_def utv_eq publish_twist_if_changed_def float_ne_iff Twist_def Let_def)

section \<open>Shutdown\<close>

text \<open>
  C1. \<^verbatim>\<open>destroy_node\<close> hands the zero command to the transport whatever the state is,
  the last published message included: no comparison is made. \<^verbatim>\<open>main\<close> calls it once,
  after the last event, so a run of the program publishes what the events published and
  then exactly one more message, the zero command, which is the last one.
\<close>

theorem shutdown_sends_one_stop_last:
  "published (destroy_node s) = published s @ [Twist]
   \<and> published (main ls as es) = published (run es (init ls as)) @ [Twist]
   \<and> length (published (main ls as es)) = length (published (run es (init ls as))) + 1
   \<and> last (published (main ls as es)) = Twist
   \<and> linear_x (last (published (main ls as es))) = Fin 0
   \<and> angular_z (last (published (main ls as es))) = Fin 0"
  by (simp add: main_def destroy_node_def Twist_def)

text \<open>
  Forward, tick, release, tick, shutdown: the last regular emission is already the zero
  command, and the shutdown sends it once more.
\<close>

theorem shutdown_after_zero_emission:
  "published (main (Fin (1/2)) (Fin 1)
      [Press (KeyCode (Some ''w'')), Tick, Release (KeyCode (Some ''w'')), Tick])
   = [Twist\<lparr>linear_x := Fin (1/2)\<rparr>, Twist, Twist]"
  using shutdown_sends_one_stop_last
    [of "run [Press (KeyCode (Some ''w'')), Tick, Release (KeyCode (Some ''w'')), Tick]
          (init (Fin (1/2)) (Fin 1))"
        "Fin (1/2)" "Fin 1" "[Press (KeyCode (Some ''w'')), Tick, Release (KeyCode (Some ''w'')), Tick]"]
  by (simp add: init_def on_press_def on_release_def utv_eq publish_twist_if_changed_def float_ne_iff
        Twist_def Let_def)

section \<open>The listener thread and the timer\<close>




end
